theory Spec2Isabelle
  imports Main "HOL-Library.Word" "HOL-Library.Signed_Division"
begin

unbundle bit_operations_syntax

section \<open>The stereo matching demo (example/stereo_match.cpp)\<close>

subsection \<open>C integers and the C library\<close>

text \<open>
  A C \<open>int\<close> is a 32-bit word read as two's complement. \<open>/\<close> and \<open>%\<close> truncate
  towards zero; \<open><\<close> and \<open>>\<close> on \<open>int\<close> are the signed comparisons (\<open><s\<close>).
\<close>

type_synonym cint = "32 word"

definition c_div :: "cint \<Rightarrow> cint \<Rightarrow> cint" where
  "c_div a b = word_of_int (sint a sdiv sint b)"

definition c_mod :: "cint \<Rightarrow> cint \<Rightarrow> cint" where
  "c_mod a b = word_of_int (sint a smod sint b)"

text \<open>\<open>strncmp(s, t, n) == 0\<close> on strings without embedded NUL.\<close>

definition strncmp_eq :: "string \<Rightarrow> string \<Rightarrow> nat \<Rightarrow> bool" where
  "strncmp_eq s t n = (take n s = take n t)"

definition isspace :: "char \<Rightarrow> bool" where
  "isspace c = (c \<in> set [CHR '' '', CHR 0x09, CHR 0x0A, CHR 0x0B, CHR 0x0C, CHR 0x0D])"

definition isdigit :: "char \<Rightarrow> bool" where
  "isdigit c = (c \<in> set ''0123456789'')"

definition digit_val :: "char \<Rightarrow> int" where
  "digit_val c = of_char c - 48"

definition decimal :: "string \<Rightarrow> int" where
  "decimal ds = foldl (\<lambda>a c. 10 * a + digit_val c) 0 ds"

text \<open>
  \<open>sscanf(s, "%d", &x)\<close>: white space is skipped, then an optional sign and the
  longest run of decimal digits are converted; what follows the digits is ignored.
  \<open>Some v\<close> is the return value 1 with \<open>v\<close> stored in \<open>x\<close>; \<open>None\<close> is every other
  return value (0, or \<open>EOF\<close> on an empty input), where \<open>x\<close> is left alone.

  C leaves the stored value open when the numeral does not fit an \<open>int\<close>. The GNU C
  library, which the program runs on, converts the digits with \<open>strtol\<close> and stores the
  \<open>long\<close> (64 bits) as an \<open>int\<close>: a numeral outside the range of \<open>long\<close> becomes
  \<open>LONG_MAX\<close> or \<open>LONG_MIN\<close> (\<open>clamp_long\<close>), and of the \<open>long\<close> the low 32 bits are
  stored. So \<open>18446744073709551632\<close> is stored as -1 and \<open>4294967312\<close> as 16.
\<close>

definition clamp_long :: "int \<Rightarrow> int" where
  "clamp_long n = max (- 9223372036854775808) (min 9223372036854775807 n)"

definition sscanf_d :: "string \<Rightarrow> cint option" where
  "sscanf_d s =
     (let s1 = dropWhile isspace s;
          neg = (take 1 s1 = ''-'');
          s2 = (if take 1 s1 = ''-'' \<or> take 1 s1 = ''+'' then drop 1 s1 else s1);
          ds = takeWhile isdigit s2
      in if ds = [] then None
         else Some (word_of_int (clamp_long (if neg then - decimal ds else decimal ds))))"

subsection \<open>Command-line options, output and the environment\<close>

definition algorithm_opt :: string where "algorithm_opt = ''--algorithm=''"
definition maxdisp_opt :: string where "maxdisp_opt = ''--max-disparity=''"
definition blocksize_opt :: string where "blocksize_opt = ''--blocksize=''"
definition nodisplay_opt :: string where "nodisplay_opt = ''--no-display''"
definition scale_opt :: string where "scale_opt = ''--scale=''"

definition STEREO_BM :: cint where "STEREO_BM = 0"
definition STEREO_SGBM :: cint where "STEREO_SGBM = 1"
definition STEREO_HH :: cint where "STEREO_HH = 2"
definition STEREO_VAR :: cint where "STEREO_VAR = 3"

text \<open>The local variables of \<open>main\<close> that the argument loop sets. A file name is a
  \<open>const char*\<close>: \<open>None\<close> is the null pointer.\<close>

record options =
  alg :: cint
  SADWindowSize :: cint
  numberOfDisparities :: cint
  no_display :: bool
  intrinsic_filename :: "string option"
  extrinsic_filename :: "string option"
  disparity_filename :: "string option"
  point_cloud_filename :: "string option"

definition init_options :: options where
  "init_options =
     \<lparr>alg = STEREO_SGBM, SADWindowSize = 0, numberOfDisparities = 0, no_display = False,
      intrinsic_filename = None, extrinsic_filename = None,
      disparity_filename = None, point_cloud_filename = None\<rparr>"

text \<open>The texts \<open>main\<close> prints with \<open>printf\<close>, one constructor for each format string:
  \<^item> \<open>Unknown_stereo_algorithm\<close>: "Command-line parameter error: Unknown stereo algorithm"
  \<^item> \<open>Max_disparity_error\<close>: "Command-line parameter error: The max disparity
    (--maxdisparity=<...>) must be a positive integer divisible by 16"
  \<^item> \<open>Block_size_error\<close>: "Command-line parameter error: The block size
    (--blocksize=<...>) must be a positive odd number"
  \<^item> \<open>Unknown_option a\<close>: "Command-line parameter error: unknown option \<open>a\<close>"
  \<^item> \<open>Calibration_pair_error\<close>: "Command-line parameter error: either both intrinsic
    and extrinsic parameters must be specified, or none of them (...)"
  \<^item> \<open>Point_cloud_error\<close>: "Command-line parameter error: extrinsic and intrinsic
    parameters must be specified to compute the point cloud"
  \<^item> \<open>Failed_to_open f\<close>: "Failed to open file \<open>f\<close>"\<close>

datatype message =
    Unknown_stereo_algorithm
  | Max_disparity_error
  | Block_size_error
  | Unknown_option string
  | Calibration_pair_error
  | Point_cloud_error
  | Failed_to_open string

text \<open>What the program does that can be seen from outside, in the order it happens:
  a \<open>printf\<close>, a call of \<open>print_help\<close>, the \<open>start()\<close> of the camera with the given
  device number.\<close>

datatype event = Printf message | Print_help | Camera_start nat

text \<open>The matcher settings \<open>main\<close> derives from the options before it enters the frame
  loop (the fields of \<open>bm\<close>, \<open>sgbm\<close> and \<open>var\<close> that depend on the options).\<close>

record stereo_params =
  sp_alg :: cint
  sp_numberOfDisparities :: cint
  bm_SADWindowSize :: cint
  sgbm_SADWindowSize :: cint
  sgbm_fullDP :: bool
  var_minDisp :: cint

text \<open>How \<open>main\<close> ends: it returns a value, or it enters the frame loop (which runs the
  external matcher on every frame until the escape key) with the given settings.
  \<open>Undefined_behaviour\<close> stands for opening a file through a null file name.\<close>

datatype status = Return int | Frame_loop stereo_params | Undefined_behaviour

text \<open>What \<open>main\<close> gets from outside: whether \<open>cv::FileStorage\<close> opens a file of a given
  name, and the width of the left camera's frames (\<open>left->colorSize().width\<close>; the
  camera class \<open>UEye\<close> is outside the sources).\<close>

record env =
  file_opens :: "string \<Rightarrow> bool"
  img_width :: cint

subsection \<open>The argument loop\<close>

text \<open>\<open>argv[i]\<close> for \<open>i \<le> argc\<close>: \<open>argv[argc]\<close> is the null pointer.\<close>

definition argv_at :: "string list \<Rightarrow> nat \<Rightarrow> string option" where
  "argv_at argv i = (if i < length argv then Some (argv ! i) else None)"

definition alg_of_name :: "string \<Rightarrow> cint" where
  "alg_of_name n =
     (if n = ''bm'' then STEREO_BM
      else if n = ''sgbm'' then STEREO_SGBM
      else if n = ''hh'' then STEREO_HH
      else if n = ''var'' then STEREO_VAR
      else - 1)"

text \<open>The body of the \<open>for\<close> loop at index \<open>i < argc\<close>: \<open>Inl\<close> is what is printed before
  \<open>return -1\<close>; \<open>Inr\<close> is the value of \<open>i\<close> at the end of the body (one more after
  \<open>argv[++i]\<close>) and the options. The operands of \<open>||\<close> are tested from left to right.\<close>

definition loop_body :: "string list \<Rightarrow> nat \<Rightarrow> options \<Rightarrow> event list + nat \<times> options" where
  "loop_body argv i opts =
     (let a = argv ! i in
      if strncmp_eq a algorithm_opt (length algorithm_opt) then
        (let g = alg_of_name (drop (length algorithm_opt) a) in
         if g <s 0 then Inl [Printf Unknown_stereo_algorithm, Print_help]
         else Inr (i, opts\<lparr>alg := g\<rparr>))
      else if strncmp_eq a maxdisp_opt (length maxdisp_opt) then
        (case sscanf_d (drop (length maxdisp_opt) a) of
           None \<Rightarrow> Inl [Printf Max_disparity_error, Print_help]
         | Some d \<Rightarrow>
             if d <s 1 then Inl [Printf Max_disparity_error, Print_help]
             else if c_mod d 16 \<noteq> 0 then Inl [Printf Max_disparity_error, Print_help]
             else Inr (i, opts\<lparr>numberOfDisparities := d\<rparr>))
      else if strncmp_eq a blocksize_opt (length blocksize_opt) then
        (case sscanf_d (drop (length blocksize_opt) a) of
           None \<Rightarrow> Inl [Printf Block_size_error]
         | Some b \<Rightarrow>
             if b <s 1 then Inl [Printf Block_size_error]
             else if c_mod b 2 \<noteq> 1 then Inl [Printf Block_size_error]
             else Inr (i, opts\<lparr>SADWindowSize := b\<rparr>))
      else if a = nodisplay_opt then Inr (i, opts\<lparr>no_display := True\<rparr>)
      else if a = ''-i'' then Inr (i + 1, opts\<lparr>intrinsic_filename := argv_at argv (i + 1)\<rparr>)
      else if a = ''-e'' then Inr (i + 1, opts\<lparr>extrinsic_filename := argv_at argv (i + 1)\<rparr>)
      else if a = ''-o'' then Inr (i + 1, opts\<lparr>disparity_filename := argv_at argv (i + 1)\<rparr>)
      else if a = ''-p'' then Inr (i + 1, opts\<lparr>point_cloud_filename := argv_at argv (i + 1)\<rparr>)
      else Inl [Printf (Unknown_option a)])"

text \<open>\<open>for (int i = 1; i < argc; i++)\<close>, started at any \<open>i\<close>. The result keeps the final
  \<open>i\<close>, which is \<open>argc\<close>, or \<open>argc + 1\<close> after a value-taking flag in the last place.\<close>

function main_loop :: "string list \<Rightarrow> nat \<Rightarrow> options \<Rightarrow> event list + nat \<times> options" where
  "main_loop argv i opts =
     (if i < length argv then
        (case loop_body argv i opts of
           Inl out \<Rightarrow> Inl out
         | Inr (j, opts') \<Rightarrow> main_loop argv (Suc j) opts')
      else Inr (i, opts))"
  by pat_completeness auto
termination
  by (relation "measure (\<lambda>(argv, i, opts). length argv - i)")
     (auto simp: loop_body_def Let_def split: if_splits option.splits)

declare main_loop.simps [simp del]

subsection \<open>After the arguments\<close>

text \<open>\<open>((img_size.width / 8) + 15) & -16\<close>\<close>

definition default_numberOfDisparities :: "cint \<Rightarrow> cint" where
  "default_numberOfDisparities width = (c_div width 8 + 15) AND (- 16)"

definition make_params :: "env \<Rightarrow> options \<Rightarrow> stereo_params" where
  "make_params e opts =
     (let nd = (if 0 <s numberOfDisparities opts then numberOfDisparities opts
                else default_numberOfDisparities (img_width e))
      in \<lparr>sp_alg = alg opts,
          sp_numberOfDisparities = nd,
          bm_SADWindowSize = (if 0 <s SADWindowSize opts then SADWindowSize opts else 9),
          sgbm_SADWindowSize = (if 0 <s SADWindowSize opts then SADWindowSize opts else 3),
          sgbm_fullDP = (alg opts = STEREO_HH),
          var_minDisp = - nd\<rparr>)"

text \<open>Lines 109 to 208: both cameras are created and started, then the calibration files
  are read if \<open>intrinsic_filename\<close> is set, then the matchers are set up. The calls into
  the camera, vision and point cloud libraries (\<open>start\<close>, \<open>stereoRectify\<close>, \<open>remap\<close>, ...)
  are taken to return; of the file reader only \<open>isOpened\<close> is looked at.\<close>

definition run_cameras :: "env \<Rightarrow> options \<Rightarrow> event list \<times> status" where
  "run_cameras e opts =
     (case intrinsic_filename opts of
        None \<Rightarrow> ([Camera_start 1, Camera_start 2], Frame_loop (make_params e opts))
      | Some f \<Rightarrow>
          if \<not> file_opens e f
          then ([Camera_start 1, Camera_start 2, Printf (Failed_to_open f)], Return (- 1))
          else (case extrinsic_filename opts of
                  None \<Rightarrow> ([Camera_start 1, Camera_start 2], Undefined_behaviour)
                | Some g \<Rightarrow>
                    if \<not> file_opens e g
                    then ([Camera_start 1, Camera_start 2, Printf (Failed_to_open g)],
                          Return (- 1))
                    else ([Camera_start 1, Camera_start 2], Frame_loop (make_params e opts))))"

text \<open>The two checks after the loop (lines 99 to 107), then the rest.\<close>

definition after_parse :: "env \<Rightarrow> options \<Rightarrow> event list \<times> status" where
  "after_parse e opts =
     (if (intrinsic_filename opts \<noteq> None) \<noteq> (extrinsic_filename opts \<noteq> None)
      then ([Printf Calibration_pair_error], Return (- 1))
      else if extrinsic_filename opts = None \<and> point_cloud_filename opts \<noteq> None
      then ([Printf Point_cloud_error], Return (- 1))
      else run_cameras e opts)"

text \<open>\<open>main\<close>, with \<open>argv\<close> the list \<open>argv[0..argc-1]\<close>.\<close>

definition main :: "env \<Rightarrow> string list \<Rightarrow> event list \<times> status" where
  "main e argv =
     (if length argv < 3 then ([Print_help], Return 0)
      else (case main_loop argv 1 init_options of
              Inl out \<Rightarrow> (out, Return (- 1))
            | Inr (i, opts) \<Rightarrow> after_parse e opts))"

subsection \<open>The flags of a command line\<close>

text \<open>
  What "the flag \<open>f\<close> is given with a value" means on a list of arguments, for \<open>f\<close> one
  of \<open>-i\<close>, \<open>-e\<close>, \<open>-o\<close>, \<open>-p\<close>: the arguments are read from the left; an argument that is
  one of these four flags takes the next argument as its value, which is then not a flag
  itself; the last occurrence of \<open>f\<close> decides, and an occurrence in the last place has no
  value. \<open>flag_value f args acc\<close> is the value of \<open>f\<close> after \<open>args\<close> when it was \<open>acc\<close>
  before, and \<open>given_value f argv\<close> the value of \<open>f\<close> in \<open>argv[1..argc-1]\<close>; \<open>None\<close> is
  "not given with a value". This is the reading of the command line that the properties
  of the two checks after the loop are stated in; it is compared with what the loop stores
  in \<open>main_loop_file_names\<close> below.
\<close>

definition value_flags :: "string list" where
  "value_flags = [''-i'', ''-e'', ''-o'', ''-p'']"

fun flag_value :: "string \<Rightarrow> string list \<Rightarrow> string option \<Rightarrow> string option" where
  "flag_value f [] acc = acc"
| "flag_value f [a] acc = (if a = f then None else acc)"
| "flag_value f (a # b # rest) acc =
     (if a = f then flag_value f rest (Some b)
      else if a \<in> set value_flags then flag_value f rest acc
      else flag_value f (b # rest) acc)"

definition given_value :: "string \<Rightarrow> string list \<Rightarrow> string option" where
  "given_value f argv = flag_value f (drop 1 argv) None"

section \<open>Properties\<close>

subsection \<open>The argument loop, one argument at a time\<close>

lemmas opt_defs = strncmp_eq_def algorithm_opt_def maxdisp_opt_def blocksize_opt_def
  nodisplay_opt_def

lemma loop_body_i:
  "argv ! i = ''-i'' \<Longrightarrow>
   loop_body argv i opts = Inr (Suc i, opts\<lparr>intrinsic_filename := argv_at argv (Suc i)\<rparr>)"
  by (simp add: loop_body_def opt_defs)

lemma loop_body_e:
  "argv ! i = ''-e'' \<Longrightarrow>
   loop_body argv i opts = Inr (Suc i, opts\<lparr>extrinsic_filename := argv_at argv (Suc i)\<rparr>)"
  by (simp add: loop_body_def opt_defs)

lemma loop_body_o:
  "argv ! i = ''-o'' \<Longrightarrow>
   loop_body argv i opts = Inr (Suc i, opts\<lparr>disparity_filename := argv_at argv (Suc i)\<rparr>)"
  by (simp add: loop_body_def opt_defs)

lemma loop_body_p:
  "argv ! i = ''-p'' \<Longrightarrow>
   loop_body argv i opts = Inr (Suc i, opts\<lparr>point_cloud_filename := argv_at argv (Suc i)\<rparr>)"
  by (simp add: loop_body_def opt_defs)

lemma loop_body_other:
  "argv ! i \<noteq> ''-i'' \<Longrightarrow> argv ! i \<noteq> ''-e'' \<Longrightarrow> argv ! i \<noteq> ''-o'' \<Longrightarrow> argv ! i \<noteq> ''-p''
   \<Longrightarrow> xs ! i = argv ! i \<Longrightarrow> loop_body xs i opts = loop_body argv i opts"
  by (simp add: loop_body_def Let_def cong: if_cong)

lemma loop_body_maxdisp:
  "argv ! i = maxdisp_opt @ v \<Longrightarrow>
   loop_body argv i opts =
     (case sscanf_d v of
        None \<Rightarrow> Inl [Printf Max_disparity_error, Print_help]
      | Some d \<Rightarrow>
          if d <s 1 then Inl [Printf Max_disparity_error, Print_help]
          else if c_mod d 16 \<noteq> 0 then Inl [Printf Max_disparity_error, Print_help]
          else Inr (i, opts\<lparr>numberOfDisparities := d\<rparr>))"
  by (simp add: loop_body_def opt_defs)


lemma loop_body_scale:
  "argv ! i = scale_opt @ v \<Longrightarrow>
   loop_body argv i opts = Inl [Printf (Unknown_option (scale_opt @ v))]"
  by (simp add: loop_body_def opt_defs scale_opt_def)

lemma loop_body_index: "loop_body argv i opts = Inr (j, opts') \<Longrightarrow> i \<le> j"
  by (auto simp: loop_body_def Let_def split: if_splits option.splits)

text \<open>The body reads nothing beyond \<open>argv[i]\<close> and, for a value-taking flag,
  \<open>argv[i + 1]\<close>: on a prefix of the arguments that holds both it does the same.\<close>

lemma loop_body_take:
  assumes "i < n" "n \<le> length argv" "loop_body (take n argv) i opts = Inr (j, o2)" "Suc j \<le> n"
  shows "loop_body argv i opts = Inr (j, o2)"
proof (cases "argv ! i = ''-i'' \<or> argv ! i = ''-e'' \<or> argv ! i = ''-o'' \<or> argv ! i = ''-p''")
  case False
  then have "loop_body (take n argv) i opts = loop_body argv i opts"
    using assms(1) by (intro loop_body_other) simp_all
  with assms(3) show ?thesis by simp
next
  case True
  have a: "take n argv ! i = argv ! i" using assms(1) by simp
  have j: "j = Suc i"
    using True assms(3) a
    by (auto simp: loop_body_i loop_body_e loop_body_o loop_body_p)
  then have "argv_at (take n argv) (Suc i) = argv_at argv (Suc i)"
    using assms(2,4) by (simp add: argv_at_def)
  then show ?thesis
    using True assms(3) a
    by (auto simp: loop_body_i loop_body_e loop_body_o loop_body_p)
qed

lemma main_loop_index: "main_loop argv i opts = Inr (k, opts') \<Longrightarrow> i \<le> k"
proof (induction argv i opts rule: main_loop.induct)
  case (1 argv i opts)
  show ?case
  proof (cases "i < length argv")
    case False
    with "1.prems" show ?thesis by (simp add: main_loop.simps)
  next
    case True
    show ?thesis
    proof (cases "loop_body argv i opts")
      case (Inl out)
      with True "1.prems" show ?thesis by (simp add: main_loop.simps)
    next
      case (Inr p)
      obtain j o2 where p: "p = (j, o2)" by (cases p)
      have ij: "i \<le> j" using Inr p loop_body_index by simp
      have "main_loop argv (Suc j) o2 = Inr (k, opts')"
        using "1.prems" True Inr p by (simp add: main_loop.simps)
      then have "Suc j \<le> k" using "1.IH" True Inr p by simp
      with ij show ?thesis by simp
    qed
  qed
qed

text \<open>When the loop, run on the first \<open>n\<close> arguments alone, ends at index \<open>n\<close> with
  options \<open>opts'\<close>, then on all arguments it reaches index \<open>n\<close> with the same options.\<close>

lemma main_loop_take_aux:
  "xs = take n argv \<Longrightarrow> n \<le> length argv \<Longrightarrow> main_loop xs i opts = Inr (n, opts')
   \<Longrightarrow> main_loop argv i opts = main_loop argv n opts'"
proof (induction xs i opts rule: main_loop.induct)
  case (1 xs i opts)
  have len: "length xs = n" using "1.prems" by simp
  show ?case
  proof (cases "i < n")
    case False
    with "1.prems" len show ?thesis by (simp add: main_loop.simps)
  next
    case True
    show ?thesis
    proof (cases "loop_body xs i opts")
      case (Inl out)
      with True "1.prems" len show ?thesis by (simp add: main_loop.simps)
    next
      case (Inr p)
      obtain j o2 where p: "p = (j, o2)" by (cases p)
      have rest: "main_loop xs (Suc j) o2 = Inr (n, opts')"
        using "1.prems" True len Inr p by (simp add: main_loop.simps)
      then have "Suc j \<le> n" by (rule main_loop_index)
      then have "loop_body argv i opts = Inr (j, o2)"
        using True "1.prems" Inr p loop_body_take [of i n argv opts j o2] by simp
      moreover have "main_loop argv (Suc j) o2 = main_loop argv n opts'"
        using "1.IH" True len Inr p rest "1.prems" by simp
      moreover have "i < length argv" using True "1.prems" by simp
      ultimately show ?thesis by (simp add: main_loop.simps [of argv i])
    qed
  qed
qed

lemma main_loop_take:
  "n \<le> length argv \<Longrightarrow> main_loop (take n argv) i opts = Inr (n, opts')
   \<Longrightarrow> main_loop argv i opts = main_loop argv n opts'"
  by (rule main_loop_take_aux [OF refl])


lemmas scan_defs = sscanf_d_def clamp_long_def isspace_def isdigit_def decimal_def digit_val_def
  Let_def

text \<open>\<open>main\<close> from the point where the loop stands at index \<open>i\<close>.\<close>

lemma main_reaches:
  assumes "3 \<le> length argv" "i \<le> length argv"
    and "main_loop (take i argv) 1 init_options = Inr (i, opts)"
  shows "main e argv =
    (case main_loop argv i opts of
       Inl out \<Rightarrow> (out, Return (- 1))
     | Inr (j, opts') \<Rightarrow> after_parse e opts')"
  using assms main_loop_take [of i argv 1 init_options opts]
  by (simp add: main_def)

text \<open>A file is never opened through a null file name: the first check after the loop
  has returned before.\<close>

lemma main_defined: "snd (main e argv) \<noteq> Undefined_behaviour"
  by (auto simp: main_def after_parse_def run_cameras_def split: sum.splits option.splits)

subsection \<open>The flags with a number\<close>

text \<open>The numerals beyond \<open>long\<close> and beyond \<open>int\<close>, as the C library stores them.\<close>

lemma sscanf_d_beyond_long:
  "sscanf_d ''18446744073709551632'' = Some (- 1)"
  "sscanf_d ''18446744073709551617'' = Some (- 1)"
  "sscanf_d ''-18446744073709551600'' = Some 0"
  "sscanf_d ''4294967312'' = Some 16"
  by (simp_all add: scan_defs)







text \<open>A numeral beyond the range of \<open>long\<close> is stored as -1 and refused, also where its
  low 32 bits alone would pass.\<close>

lemma max_disparity_beyond_long:
  "main e [''stereo_match'', ''--no-display'', ''--max-disparity=18446744073709551632'']
     = ([Printf Max_disparity_error, Print_help], Return (- 1))"
  by (simp add: main_def main_loop.simps loop_body_def opt_defs scan_defs word_sless_alt)

lemma block_size_beyond_long:
  "main e [''stereo_match'', ''--no-display'', ''--blocksize=18446744073709551617'']
     = ([Printf Block_size_error], Return (- 1))"
  by (simp add: main_def main_loop.simps loop_body_def opt_defs scan_defs word_sless_alt)

text \<open>
  C5, as the program has it. With \<open>--max-disparity=50\<close> as the first of at least two
  arguments \<open>main\<close> prints the max disparity error and the help and returns -1 (50 is not
  divisible by 16); with that argument alone it prints the help and returns 0.
\<close>

theorem max_disparity_50_first_of_two:
  "main e (prog # ''--max-disparity=50'' # a # rest)
     = ([Printf Max_disparity_error, Print_help], Return (- 1))
   \<and> main e [prog, ''--max-disparity=50''] = ([Print_help], Return 0)"
proof -
  have v: "sscanf_d ''50'' = Some 50" by (simp add: scan_defs)
  have m: "c_mod 50 16 = 2" by (simp add: c_mod_def signed_modulo_int_def)
  have a: "(prog # ''--max-disparity=50'' # a # rest) ! 1 = maxdisp_opt @ ''50''"
    by (simp add: maxdisp_opt_def)
  have "main_loop (prog # ''--max-disparity=50'' # a # rest) 1 init_options
      = Inl [Printf Max_disparity_error, Print_help]"
    by (simp add: main_loop.simps [of _ 1] loop_body_maxdisp [OF a] v m del: One_nat_def)
  then show ?thesis by (simp add: main_def)
qed

theorem max_disparity_50_witness:
  "main \<lparr>file_opens = (\<lambda>f. True), img_width = 640\<rparr>
      (''stereo_match'' # ''--max-disparity=50'' # ''--no-display'' # [])
     = ([Printf Max_disparity_error, Print_help], Return (- 1))
   \<and> main \<lparr>file_opens = (\<lambda>f. True), img_width = 640\<rparr> [''stereo_match'', ''--max-disparity=50'']
     = ([Print_help], Return 0)"
  by (rule max_disparity_50_first_of_two)

text \<open>
  The scenario of the claim, the single argument \<open>--max-disparity=50\<close>: the program does
  not return -1.
\<close>

theorem single_max_disparity_50_counterexample:
  "main \<lparr>file_opens = (\<lambda>f. True), img_width = 640\<rparr> [''stereo_match'', ''--max-disparity=50'']
     = ([Print_help], Return 0)
   \<and> snd (main \<lparr>file_opens = (\<lambda>f. True), img_width = 640\<rparr>
            [''stereo_match'', ''--max-disparity=50'']) \<noteq> Return (- 1)"
  by (simp add: main_def)

subsection \<open>The checks on the file names\<close>

text \<open>What the loop stores as file names is what the command line gives the flags as
  values, read as \<open>flag_value\<close> reads it.\<close>

lemma loop_body_plain:
  "loop_body argv i opts = Inr (j, o2) \<Longrightarrow> argv ! i \<notin> set value_flags \<Longrightarrow>
   j = i \<and> intrinsic_filename o2 = intrinsic_filename opts
         \<and> extrinsic_filename o2 = extrinsic_filename opts
         \<and> point_cloud_filename o2 = point_cloud_filename opts"
  by (auto simp: loop_body_def Let_def value_flags_def split: if_splits option.splits)

lemma loop_body_value_flag:
  assumes "argv ! i \<in> set value_flags"
  shows "\<exists>o2. loop_body argv i opts = Inr (Suc i, o2)
     \<and> intrinsic_filename o2 =
         (if argv ! i = ''-i'' then argv_at argv (Suc i) else intrinsic_filename opts)
     \<and> extrinsic_filename o2 =
         (if argv ! i = ''-e'' then argv_at argv (Suc i) else extrinsic_filename opts)
     \<and> point_cloud_filename o2 =
         (if argv ! i = ''-p'' then argv_at argv (Suc i) else point_cloud_filename opts)"
  using assms
  by (auto simp: value_flags_def loop_body_i loop_body_e loop_body_o loop_body_p)

lemma flag_value_skip:
  "a \<notin> set value_flags \<Longrightarrow> f \<in> set value_flags \<Longrightarrow>
   flag_value f (a # xs) acc = flag_value f xs acc"
  by (cases xs) auto

lemma flag_value_drop_plain:
  assumes "i < length argv" "argv ! i \<notin> set value_flags" "f \<in> set value_flags"
  shows "flag_value f (drop i argv) acc = flag_value f (drop (Suc i) argv) acc"
proof -
  have "drop i argv = argv ! i # drop (Suc i) argv"
    using assms(1) by (simp add: Cons_nth_drop_Suc)
  then show ?thesis using assms(2,3) by (simp add: flag_value_skip)
qed

lemma flag_value_drop_value_flag:
  assumes "i < length argv" "argv ! i \<in> set value_flags"
  shows "flag_value f (drop i argv) acc =
         flag_value f (drop (Suc (Suc i)) argv)
           (if argv ! i = f then argv_at argv (Suc i) else acc)"
proof (cases "Suc i < length argv")
  case True
  have "drop i argv = argv ! i # argv ! Suc i # drop (Suc (Suc i)) argv"
    using assms(1) True by (simp add: Cons_nth_drop_Suc)
  then show ?thesis using assms(2) True by (simp add: argv_at_def)
next
  case False
  then have "drop i argv = [argv ! i]"
    using assms(1) by (metis Cons_nth_drop_Suc drop_all not_less)
  then show ?thesis using False by (simp add: argv_at_def)
qed

lemma main_loop_file_names:
  "main_loop argv i opts = Inr (k, opts') \<Longrightarrow>
   intrinsic_filename opts' = flag_value ''-i'' (drop i argv) (intrinsic_filename opts)
   \<and> extrinsic_filename opts' = flag_value ''-e'' (drop i argv) (extrinsic_filename opts)
   \<and> point_cloud_filename opts' = flag_value ''-p'' (drop i argv) (point_cloud_filename opts)"
proof (induction argv i opts rule: main_loop.induct)
  case (1 argv i opts)
  show ?case
  proof (cases "i < length argv")
    case False
    with "1.prems" show ?thesis by (simp add: main_loop.simps)
  next
    case True
    show ?thesis
    proof (cases "loop_body argv i opts")
      case (Inl out)
      with True "1.prems" show ?thesis by (simp add: main_loop.simps)
    next
      case (Inr p)
      obtain j o2 where p: "p = (j, o2)" by (cases p)
      have rest: "main_loop argv (Suc j) o2 = Inr (k, opts')"
        using "1.prems" True Inr p by (simp add: main_loop.simps)
      have IH: "intrinsic_filename opts' =
            flag_value ''-i'' (drop (Suc j) argv) (intrinsic_filename o2)
          \<and> extrinsic_filename opts' =
            flag_value ''-e'' (drop (Suc j) argv) (extrinsic_filename o2)
          \<and> point_cloud_filename opts' =
            flag_value ''-p'' (drop (Suc j) argv) (point_cloud_filename o2)"
        using "1.IH" True Inr p rest by simp
      show ?thesis
      proof (cases "argv ! i \<in> set value_flags")
        case False
        have "j = i \<and> intrinsic_filename o2 = intrinsic_filename opts
            \<and> extrinsic_filename o2 = extrinsic_filename opts
            \<and> point_cloud_filename o2 = point_cloud_filename opts"
          using Inr p False loop_body_plain [of argv i opts j o2] by simp
        with IH True False show ?thesis
          by (simp add: flag_value_drop_plain value_flags_def)
      next
        case vf: True
        from loop_body_value_flag [OF vf, of opts] Inr p
        have "j = Suc i
          \<and> intrinsic_filename o2 =
              (if argv ! i = ''-i'' then argv_at argv (Suc i) else intrinsic_filename opts)
          \<and> extrinsic_filename o2 =
              (if argv ! i = ''-e'' then argv_at argv (Suc i) else extrinsic_filename opts)
          \<and> point_cloud_filename o2 =
              (if argv ! i = ''-p'' then argv_at argv (Suc i) else point_cloud_filename opts)"
          by auto
        with IH show ?thesis
          by (simp only: flag_value_drop_value_flag [OF True vf])
      qed
    qed
  qed
qed

lemma main_loop_given:
  assumes "main_loop argv 1 init_options = Inr (k, opts)"
  shows "intrinsic_filename opts = given_value ''-i'' argv"
    and "extrinsic_filename opts = given_value ''-e'' argv"
    and "point_cloud_filename opts = given_value ''-p'' argv"
  using main_loop_file_names [OF assms]
  by (simp_all add: given_value_def init_options_def)

text \<open>\<open>main\<close> on a command line that passes the loop, by the flags it gives.\<close>

lemma main_by_flags:
  assumes "main_loop argv 1 init_options = Inr (k, opts)"
  shows "main e argv =
    (if length argv < 3 then ([Print_help], Return 0)
     else if (given_value ''-i'' argv \<noteq> None) \<noteq> (given_value ''-e'' argv \<noteq> None)
     then ([Printf Calibration_pair_error], Return (- 1))
     else if given_value ''-e'' argv = None \<and> given_value ''-p'' argv \<noteq> None
     then ([Printf Point_cloud_error], Return (- 1))
     else run_cameras e opts)"
  using assms main_loop_given [OF assms]
  by (auto simp: main_def after_parse_def)

text \<open>
  C3, as the program has it. For every argument vector that passes the loop, with at
  least two arguments: the check looks at the file names the loop has stored, which are
  the values the command line gives \<open>-i\<close> and \<open>-e\<close> (\<open>given_value\<close>: the argument after the
  last occurrence of the flag that is not itself the value of a flag; none if that
  occurrence is the last argument). If exactly one of the two is given with a value,
  \<open>main\<close> prints the error about the pair and returns -1; if both or none are, the check
  passes and \<open>main\<close> goes on with the check of the point cloud and the cameras. (With
  fewer than two arguments \<open>main\<close> prints the help and returns 0 before any check.)
\<close>

theorem calibration_pair_check:
  assumes "main_loop argv 1 init_options = Inr (k, opts)"
  shows "if length argv < 3 then main e argv = ([Print_help], Return 0)
         else if (given_value ''-i'' argv \<noteq> None) \<noteq> (given_value ''-e'' argv \<noteq> None)
         then main e argv = ([Printf Calibration_pair_error], Return (- 1))
         else main e argv =
           (if given_value ''-e'' argv = None \<and> given_value ''-p'' argv \<noteq> None
            then ([Printf Point_cloud_error], Return (- 1))
            else run_cameras e opts)"
  using main_by_flags [OF assms, of e] by simp

theorem calibration_pair_check_witness:
  "main_loop [''stereo_match'', ''-i'', ''intr.yml''] 1 init_options
       = Inr (3, init_options\<lparr>intrinsic_filename := Some ''intr.yml''\<rparr>)
   \<and> given_value ''-i'' [''stereo_match'', ''-i'', ''intr.yml''] = Some ''intr.yml''
   \<and> given_value ''-e'' [''stereo_match'', ''-i'', ''intr.yml''] = None
   \<and> main \<lparr>file_opens = (\<lambda>f. True), img_width = 640\<rparr> [''stereo_match'', ''-i'', ''intr.yml'']
       = ([Printf Calibration_pair_error], Return (- 1))"
proof -
  have h: "main_loop [''stereo_match'', ''-i'', ''intr.yml''] 1 init_options
       = Inr (3, init_options\<lparr>intrinsic_filename := Some ''intr.yml''\<rparr>)"
    by (simp add: main_loop.simps loop_body_def opt_defs argv_at_def)
  have g: "given_value ''-i'' [''stereo_match'', ''-i'', ''intr.yml''] = Some ''intr.yml''
     \<and> given_value ''-e'' [''stereo_match'', ''-i'', ''intr.yml''] = None"
    by (simp add: given_value_def value_flags_def)
  show ?thesis
    using calibration_pair_check [OF h, of "\<lparr>file_opens = (\<lambda>f. True), img_width = 640\<rparr>"] h g
    by simp
qed

text \<open>
  The claim as it was written fails where a flag given with a value is given again in
  the last place: \<open>-i intr.yml -i\<close> passes the loop with \<open>-i intr.yml\<close> and no \<open>-e\<close>, yet
  the last \<open>-i\<close> stores the null pointer, the check passes and the cameras are started.
\<close>

theorem calibration_pair_counterexample:
  "main_loop [''stereo_match'', ''-i'', ''intr.yml'', ''-i''] 1 init_options
     = Inr (5, init_options)
   \<and> main \<lparr>file_opens = (\<lambda>f. True), img_width = 640\<rparr> [''stereo_match'', ''-i'', ''intr.yml'', ''-i'']
     = ([Camera_start 1, Camera_start 2], Frame_loop (make_params \<lparr>file_opens = (\<lambda>f. True), img_width = 640\<rparr> init_options))"
  by (simp add: main_def main_loop.simps loop_body_def opt_defs argv_at_def after_parse_def
      run_cameras_def init_options_def)

text \<open>
  C4, as the program has it. For every argument vector that passes the loop, with at
  least two arguments: if the command line gives \<open>-p\<close> a value (\<open>given_value\<close>, so the last
  \<open>-p\<close> is not the last argument) but does not give both \<open>-i\<close> and \<open>-e\<close> one, \<open>main\<close> prints
  one error message (about the pair if exactly one of the two has a value, about the
  point cloud if none has) and returns -1; in every other case \<open>main\<close> prints the error
  about the pair and returns -1 if exactly one of \<open>-i\<close> and \<open>-e\<close> has a value, and goes on
  to the cameras if not. (With fewer than two arguments \<open>main\<close> prints the help and
  returns 0 before any check.)
\<close>

theorem point_cloud_needs_calibration:
  assumes "main_loop argv 1 init_options = Inr (k, opts)"
  shows "if length argv < 3 then main e argv = ([Print_help], Return 0)
         else if given_value ''-p'' argv \<noteq> None
                 \<and> (given_value ''-i'' argv = None \<or> given_value ''-e'' argv = None)
         then main e argv =
           ([Printf (if (given_value ''-i'' argv \<noteq> None) \<noteq> (given_value ''-e'' argv \<noteq> None)
                     then Calibration_pair_error else Point_cloud_error)], Return (- 1))
         else main e argv =
           (if (given_value ''-i'' argv \<noteq> None) \<noteq> (given_value ''-e'' argv \<noteq> None)
            then ([Printf Calibration_pair_error], Return (- 1))
            else run_cameras e opts)"
  using main_by_flags [OF assms, of e] by auto

theorem point_cloud_needs_calibration_witness:
  "main_loop [''stereo_match'', ''-p'', ''cloud.pcd''] 1 init_options
       = Inr (3, init_options\<lparr>point_cloud_filename := Some ''cloud.pcd''\<rparr>)
   \<and> given_value ''-p'' [''stereo_match'', ''-p'', ''cloud.pcd''] = Some ''cloud.pcd''
   \<and> given_value ''-i'' [''stereo_match'', ''-p'', ''cloud.pcd''] = None
   \<and> given_value ''-e'' [''stereo_match'', ''-p'', ''cloud.pcd''] = None
   \<and> main \<lparr>file_opens = (\<lambda>f. True), img_width = 640\<rparr> [''stereo_match'', ''-p'', ''cloud.pcd'']
       = ([Printf Point_cloud_error], Return (- 1))"
proof -
  have h: "main_loop [''stereo_match'', ''-p'', ''cloud.pcd''] 1 init_options
       = Inr (3, init_options\<lparr>point_cloud_filename := Some ''cloud.pcd''\<rparr>)"
    by (simp add: main_loop.simps loop_body_def opt_defs argv_at_def)
  have g: "given_value ''-p'' [''stereo_match'', ''-p'', ''cloud.pcd''] = Some ''cloud.pcd''
     \<and> given_value ''-i'' [''stereo_match'', ''-p'', ''cloud.pcd''] = None
     \<and> given_value ''-e'' [''stereo_match'', ''-p'', ''cloud.pcd''] = None"
    by (simp add: given_value_def value_flags_def)
  show ?thesis
    using point_cloud_needs_calibration [OF h, of "\<lparr>file_opens = (\<lambda>f. True), img_width = 640\<rparr>"] h g
    by simp
qed

text \<open>
  The claim as it was written fails where \<open>-p\<close> is only the last argument: it is present,
  \<open>-i\<close> and \<open>-e\<close> are not, the loop is passed, and \<open>main\<close> starts the cameras, because the
  file name stored for \<open>-p\<close> is the null pointer \<open>argv[argc]\<close>.
\<close>

theorem point_cloud_counterexample:
  "main_loop [''stereo_match'', ''--no-display'', ''-p''] 1 init_options
     = Inr (4, init_options\<lparr>no_display := True\<rparr>)
   \<and> main \<lparr>file_opens = (\<lambda>f. True), img_width = 640\<rparr> [''stereo_match'', ''--no-display'', ''-p'']
     = ([Camera_start 1, Camera_start 2],
        Frame_loop (make_params \<lparr>file_opens = (\<lambda>f. True), img_width = 640\<rparr> (init_options\<lparr>no_display := True\<rparr>)))"
  by (simp add: main_def main_loop.simps loop_body_def opt_defs argv_at_def after_parse_def
      run_cameras_def init_options_def)

subsection \<open>The scale flag\<close>

text \<open>Wherever the loop reaches an argument that starts with \<open>--scale=\<close>, the program
  reports it as an unknown option and returns -1.\<close>

lemma scale_flag_unknown_option:
  assumes "3 \<le> length argv" and "i < length argv" and "argv ! i = scale_opt @ v"
    and "main_loop (take i argv) 1 init_options = Inr (i, opts)"
  shows "main e argv = ([Printf (Unknown_option (scale_opt @ v))], Return (- 1))"
proof -
  have "main_loop argv i opts = Inl [Printf (Unknown_option (scale_opt @ v))]"
    using assms(2,3) by (simp add: main_loop.simps [of argv i] loop_body_scale)
  then show ?thesis
    using assms(1,2,4) main_reaches [of argv i opts e] by simp
qed

text \<open>
  C6. The usage text lists \<open>--scale=\<close> and \<open>main\<close> declares \<open>scale_opt\<close>, but no branch of
  the loop tests for it: an argument \<open>--scale=1.0\<close> ends in the last branch, is reported
  as an unknown option, and \<open>main\<close> returns -1, while the same arguments without it lead
  into the frame loop.
\<close>

theorem scale_flag_rejected:
  "main \<lparr>file_opens = (\<lambda>f. True), img_width = 640\<rparr>
      [''stereo_match'', ''--no-display'', ''--no-display'', ''--scale=1.0'']
     = ([Printf (Unknown_option ''--scale=1.0'')], Return (- 1))
   \<and> main \<lparr>file_opens = (\<lambda>f. True), img_width = 640\<rparr>
      [''stereo_match'', ''--no-display'', ''--no-display'']
     = ([Camera_start 1, Camera_start 2],
        Frame_loop (make_params \<lparr>file_opens = (\<lambda>f. True), img_width = 640\<rparr>
                      (init_options\<lparr>no_display := True\<rparr>)))"
  by (simp add: main_def main_loop.simps loop_body_def opt_defs after_parse_def run_cameras_def
      init_options_def)

subsection \<open>Calibration files and cameras\<close>

text \<open>
  C7, as the program has it. In every run in which the arguments pass the loop and the
  checks with both file names set, and the intrinsic or the extrinsic file does not open,
  \<open>main\<close> reports the first file that fails and returns -1; both cameras have been
  started before that, since they are started before any file is opened.
\<close>

theorem calibration_open_failure_after_camera_start:
  assumes "3 \<le> length argv" and "main_loop argv 1 init_options = Inr (i, opts)"
    and "intrinsic_filename opts = Some f" and "extrinsic_filename opts = Some g"
    and "\<not> (file_opens e f \<and> file_opens e g)"
  shows "main e argv =
           ([Camera_start 1, Camera_start 2,
             Printf (Failed_to_open (if file_opens e f then g else f))], Return (- 1))"
  using assms by (auto simp: main_def after_parse_def run_cameras_def)

theorem calibration_open_failure_witness:
  "3 \<le> length [''stereo_match'', ''-i'', ''intr.yml'', ''-e'', ''extr.yml'']
   \<and> main_loop [''stereo_match'', ''-i'', ''intr.yml'', ''-e'', ''extr.yml''] 1 init_options
       = Inr (5, init_options\<lparr>intrinsic_filename := Some ''intr.yml'',
                               extrinsic_filename := Some ''extr.yml''\<rparr>)
   \<and> \<not> file_opens \<lparr>file_opens = (\<lambda>f. f = ''intr.yml''), img_width = 640\<rparr> ''extr.yml''
   \<and> main \<lparr>file_opens = (\<lambda>f. f = ''intr.yml''), img_width = 640\<rparr>
        [''stereo_match'', ''-i'', ''intr.yml'', ''-e'', ''extr.yml'']
       = ([Camera_start 1, Camera_start 2, Printf (Failed_to_open ''extr.yml'')], Return (- 1))"
proof -
  have h1: "3 \<le> length [''stereo_match'', ''-i'', ''intr.yml'', ''-e'', ''extr.yml'']" by simp
  have h2: "main_loop [''stereo_match'', ''-i'', ''intr.yml'', ''-e'', ''extr.yml''] 1 init_options
       = Inr (5, init_options\<lparr>intrinsic_filename := Some ''intr.yml'',
                               extrinsic_filename := Some ''extr.yml''\<rparr>)"
    by (simp add: main_loop.simps loop_body_def opt_defs argv_at_def)
  have h3: "intrinsic_filename (init_options\<lparr>intrinsic_filename := Some ''intr.yml'',
                               extrinsic_filename := Some ''extr.yml''\<rparr>) = Some ''intr.yml''"
    by simp
  have h4: "extrinsic_filename (init_options\<lparr>intrinsic_filename := Some ''intr.yml'',
                               extrinsic_filename := Some ''extr.yml''\<rparr>) = Some ''extr.yml''"
    by simp
  have h5: "\<not> (file_opens \<lparr>file_opens = (\<lambda>f. f = ''intr.yml''), img_width = 640\<rparr> ''intr.yml''
     \<and> file_opens \<lparr>file_opens = (\<lambda>f. f = ''intr.yml''), img_width = 640\<rparr> ''extr.yml'')"
    by simp
  show ?thesis
    using calibration_open_failure_after_camera_start [OF h1 h2 h3 h4 h5] h1 h2
    by simp
qed

text \<open>
  The claim as it was written, that no camera start precedes the failing exit, fails:
  with no file that opens, both cameras are started before the failure is printed.
\<close>

theorem calibration_open_failure_counterexample:
  "main \<lparr>file_opens = (\<lambda>f. False), img_width = 640\<rparr>
      [''stereo_match'', ''-i'', ''intr.yml'', ''-e'', ''extr.yml'']
     = ([Camera_start 1, Camera_start 2, Printf (Failed_to_open ''intr.yml'')], Return (- 1))"
  by (simp add: main_def main_loop.simps loop_body_def opt_defs argv_at_def after_parse_def
      run_cameras_def init_options_def)

subsection \<open>A value-taking flag in the last place\<close>

text \<open>
  C9, as the program has it. When one of \<open>-i\<close>, \<open>-e\<close>, \<open>-o\<close>, \<open>-p\<close> is the last argument and
  the loop reaches it, the value read is \<open>argv[argc]\<close>, the null pointer: the file name of
  that flag becomes null, whatever an earlier occurrence of the flag had set, and the
  loop ends without a parameter error (at \<open>i = argc + 1\<close>).
\<close>

theorem trailing_value_flag:
  assumes "Suc i = length argv"
    and "main_loop (take i argv) 1 init_options = Inr (i, opts)"
    and "argv ! i \<in> {''-i'', ''-e'', ''-o'', ''-p''}"
  shows "argv_at argv (Suc i) = None
       \<and> main_loop argv 1 init_options =
           Inr (Suc (Suc i),
                if argv ! i = ''-i'' then opts\<lparr>intrinsic_filename := None\<rparr>
                else if argv ! i = ''-e'' then opts\<lparr>extrinsic_filename := None\<rparr>
                else if argv ! i = ''-o'' then opts\<lparr>disparity_filename := None\<rparr>
                else opts\<lparr>point_cloud_filename := None\<rparr>)"
proof -
  have null: "argv_at argv (Suc i) = None"
    using assms(1) by (simp add: argv_at_def)
  have reach: "main_loop argv 1 init_options = main_loop argv i opts"
    using assms(1,2) main_loop_take [of i argv 1 init_options opts] by simp
  have stop: "main_loop argv (Suc (Suc i)) o2 = Inr (Suc (Suc i), o2)" for o2
    using assms(1) by (simp add: main_loop.simps)
  have "main_loop argv i opts =
           Inr (Suc (Suc i),
                if argv ! i = ''-i'' then opts\<lparr>intrinsic_filename := None\<rparr>
                else if argv ! i = ''-e'' then opts\<lparr>extrinsic_filename := None\<rparr>
                else if argv ! i = ''-o'' then opts\<lparr>disparity_filename := None\<rparr>
                else opts\<lparr>point_cloud_filename := None\<rparr>)"
    using assms(1,3) null stop
    by (auto simp: main_loop.simps [of argv i] loop_body_i loop_body_e loop_body_o loop_body_p)
  with null reach show ?thesis by simp
qed

theorem trailing_value_flag_witness:
  "Suc 2 = length [''stereo_match'', ''--no-display'', ''-i'']
   \<and> main_loop (take 2 [''stereo_match'', ''--no-display'', ''-i'']) 1 init_options
       = Inr (2, init_options\<lparr>no_display := True\<rparr>)
   \<and> [''stereo_match'', ''--no-display'', ''-i''] ! 2 \<in> {''-i'', ''-e'', ''-o'', ''-p''}
   \<and> argv_at [''stereo_match'', ''--no-display'', ''-i''] (Suc 2) = None
   \<and> main_loop [''stereo_match'', ''--no-display'', ''-i''] 1 init_options
       = Inr (4, init_options\<lparr>no_display := True, intrinsic_filename := None\<rparr>)"
proof -
  have h1: "Suc 2 = length [''stereo_match'', ''--no-display'', ''-i'']" by simp
  have h2: "main_loop (take 2 [''stereo_match'', ''--no-display'', ''-i'']) 1 init_options
       = Inr (2, init_options\<lparr>no_display := True\<rparr>)"
    by (simp add: main_loop.simps loop_body_def opt_defs)
  have h3: "[''stereo_match'', ''--no-display'', ''-i''] ! 2 \<in> {''-i'', ''-e'', ''-o'', ''-p''}"
    by simp
  show ?thesis
    using trailing_value_flag [OF h1 h2 h3] h1 h2 h3 by simp
qed

text \<open>
  As written, that the flag in the last place behaves as if it had not been given at
  all, the claim fails when the same flag has been given with a value before: the \<open>-i\<close>
  in the last place takes the intrinsic file name away again and \<open>main\<close> returns -1,
  while without it the program goes into the frame loop.
\<close>

theorem trailing_flag_counterexample:
  "main \<lparr>file_opens = (\<lambda>f. True), img_width = 640\<rparr>
      [''stereo_match'', ''-i'', ''intr.yml'', ''-e'', ''extr.yml'', ''-i'']
     = ([Printf Calibration_pair_error], Return (- 1))
   \<and> main \<lparr>file_opens = (\<lambda>f. True), img_width = 640\<rparr>
      [''stereo_match'', ''-i'', ''intr.yml'', ''-e'', ''extr.yml'']
     = ([Camera_start 1, Camera_start 2],
        Frame_loop (make_params \<lparr>file_opens = (\<lambda>f. True), img_width = 640\<rparr>
           (init_options\<lparr>intrinsic_filename := Some ''intr.yml'',
                          extrinsic_filename := Some ''extr.yml''\<rparr>)))"
  by (simp add: main_def main_loop.simps loop_body_def opt_defs argv_at_def after_parse_def
      run_cameras_def init_options_def)

subsection \<open>The default number of disparities\<close>


lemma and_minus_16: "(k::int) AND - 16 = 16 * (k div 16)"
proof -
  have "(- 16 :: int) = NOT (mask 4)"
    by (simp add: mask_eq_exp_minus_1)
  moreover have "k AND NOT (mask 4) = push_bit 4 (drop_bit 4 k)"
    by (rule bit_eqI) (auto simp: bit_simps)
  ultimately show ?thesis
    by (simp add: push_bit_eq_mult drop_bit_eq_div)
qed

lemma sint_in_range:
  "- 2147483648 \<le> k \<Longrightarrow> k < 2147483648 \<Longrightarrow> sint (word_of_int k :: cint) = k"
  by (simp add: sint_sbintrunc' signed_take_bit_int_eq_self)

lemma sint_default_numberOfDisparities:
  assumes "8 <=s w"
  shows "sint (default_numberOfDisparities w) = 16 * ((sint w div 8 + 15) div 16)"
proof -
  have lo: "8 \<le> sint w" using assms by (simp add: word_sle_eq)
  have hi: "sint w < 2147483648" using sint_lt [of w] by simp
  have d: "sint w sdiv 8 = sint w div 8"
    using lo by (simp add: signed_divide_int_def sgn_if)
  have "c_div w 8 + 15 = word_of_int (sint w div 8 + 15)"
    by (simp add: c_div_def d)
  then have "default_numberOfDisparities w = word_of_int ((sint w div 8 + 15) AND - 16)"
    by (simp add: default_numberOfDisparities_def word_wi_log_defs [symmetric])
  then have "default_numberOfDisparities w = word_of_int (16 * ((sint w div 8 + 15) div 16))"
    by (simp only: and_minus_16)
  moreover have "- 2147483648 \<le> 16 * ((sint w div 8 + 15) div 16)"
    using lo by linarith
  moreover have "16 * ((sint w div 8 + 15) div 16) < 2147483648"
    using hi by linarith
  ultimately show ?thesis
    by (simp only: sint_in_range)
qed

lemma default_numberOfDisparities_valid:
  assumes "8 <=s w"
  shows "0 <s default_numberOfDisparities w"
    and "c_mod (default_numberOfDisparities w) 16 = 0"
proof -
  have lo: "8 \<le> sint w" using assms by (simp add: word_sle_eq)
  have v: "sint (default_numberOfDisparities w) = 16 * ((sint w div 8 + 15) div 16)"
    using assms by (rule sint_default_numberOfDisparities)
  have pos: "0 < 16 * ((sint w div 8 + 15) div 16)" using lo by linarith
  show "0 <s default_numberOfDisparities w"
    using pos by (simp add: word_sless_alt v)
  show "c_mod (default_numberOfDisparities w) 16 = 0"
    using pos by (simp add: c_mod_def v signed_modulo_int_def sgn_if)
qed

text \<open>
  C10. When no \<open>--max-disparity\<close> flag has set \<open>numberOfDisparities\<close> (it is still 0), the
  settings of the matchers get \<open>((width / 8) + 15) & -16\<close> from the image width, and for
  every width of at least 8 that value is positive and a multiple of 16: it passes the
  two tests the flag's own value has to pass.
\<close>

theorem default_disparities_positive_multiple_of_16:
  assumes "8 <=s img_width e" and "numberOfDisparities opts = 0"
  shows "sp_numberOfDisparities (make_params e opts) = (c_div (img_width e) 8 + 15) AND (- 16)
       \<and> 0 <s sp_numberOfDisparities (make_params e opts)
       \<and> c_mod (sp_numberOfDisparities (make_params e opts)) 16 = 0"
proof -
  have "sp_numberOfDisparities (make_params e opts) = default_numberOfDisparities (img_width e)"
    using assms(2) by (simp add: make_params_def Let_def)
  then show ?thesis
    using default_numberOfDisparities_valid [OF assms(1)]
    by (simp add: default_numberOfDisparities_def)
qed

theorem default_disparities_witness:
  "8 <=s img_width \<lparr>file_opens = (\<lambda>f. True), img_width = 640\<rparr>
   \<and> numberOfDisparities init_options = 0
   \<and> sp_numberOfDisparities
        (make_params \<lparr>file_opens = (\<lambda>f. True), img_width = 640\<rparr> init_options) = 80
   \<and> 0 <s sp_numberOfDisparities
        (make_params \<lparr>file_opens = (\<lambda>f. True), img_width = 640\<rparr> init_options)
   \<and> c_mod (sp_numberOfDisparities
        (make_params \<lparr>file_opens = (\<lambda>f. True), img_width = 640\<rparr> init_options)) 16 = 0"
proof -
  have h1: "8 <=s img_width \<lparr>file_opens = (\<lambda>f. True), img_width = 640\<rparr>" by simp
  have h2: "numberOfDisparities init_options = 0" by (simp add: init_options_def)
  have v: "(c_div (img_width \<lparr>file_opens = (\<lambda>f. True), img_width = 640\<rparr>) 8 + 15) AND (- 16)
           = (80 :: cint)"
    by (simp add: c_div_def)
  show ?thesis
    using default_disparities_positive_multiple_of_16 [OF h1 h2] h1 h2
    unfolding v by blast
qed

end
